theory Spec2Isabelle
  imports Complex_Main "HOL-Library.Word" "HOL-Library.Sublist"
begin

section \<open>Data model\<close>

text \<open>
  The multi-stream recorder of \<^verbatim>\<open>src/core/multi_stream_recorder.py\<close> and the target
  selection of \<^verbatim>\<open>src/main.py\<close>. A thread (a worker, or the main thread in
  \<^verbatim>\<open>run\<close>) is modelled as a function over an explicit state; everything the thread learns from outside (the answers of the TikTok
  API, the chunks of the stream, the clock, the outcome of each file operation, and the
  moments at which another thread sets the stop event) is given as a script that the
  function consumes in program order.
\<close>

type_synonym byte = "8 word"
type_synonym bytes = "byte list"

datatype Mode = MANUAL | AUTOMATIC

text \<open>
  The exception classes the handlers tell apart. \<open>Exception\<close> stands for every other
  subclass of Python's \<^verbatim>\<open>Exception\<close> (for instance \<^verbatim>\<open>OSError\<close>). The argument is
  \<^verbatim>\<open>str(ex)\<close>. The classes of \<^verbatim>\<open>utils/custom_exceptions.py\<close> are taken to be
  unrelated by inheritance, as the handler order of \<^verbatim>\<open>_record_stream\<close> suggests.
\<close>

datatype exn = UserLiveException string | TikTokException string | Exception string

fun str_of :: "exn \<Rightarrow> string" where
  "str_of (UserLiveException t) = t"
| "str_of (TikTokException t) = t"
| "str_of (Exception t) = t"

text \<open>How a call ends: it returns, it raises, or the script ended while it was running.\<close>

datatype result = Return | Raise exn | Running

text \<open>How a \<^verbatim>\<open>thread.join(timeout=5)\<close> ends.\<close>

datatype join_outcome = Ended | TimedOut | JoinInterrupted

text \<open>
  The effects a thread has on the outside, in the order it performs them. \<open>IsAlive\<close>
  carries the answer of \<^verbatim>\<open>thread.is_alive()\<close>, \<open>JoinThread\<close> the timeout in seconds and
  how the join ended.
\<close>

datatype action =
    IsRoomAlive string
  | GetRoomId string
  | GetLiveUrl string
  | MakeDirs string
  | OpenFile string
  | WriteFile bytes
  | WriteFailed bytes
  | FlushFile
  | CloseFile string bytes
  | ConvertFlv string
  | TelegramUpload string
  | Sleep1
  | LogInfo string
  | LogError string
  | LogSuccess string
  | StartThread string
  | IsAlive string bool
  | JoinThread string nat join_outcome

text \<open>The fields of \<^verbatim>\<open>TikTokRecorder\<close> that the multi-stream recorder reads.\<close>

record TikTokRecorder =
  user :: string
  room_id :: string
  rec_output :: "string option"
  duration :: "int option"
  use_telegram :: bool

type_synonym target = "string option \<times> string option \<times> string option"

record MultiStreamRecorder =
  targets :: "target list"
  mode :: Mode
  automatic_interval :: int

text \<open>
  Which branch ended the streaming loop. The source keeps no such value (both the
  cancellation branch and the duration branch only set \<^verbatim>\<open>stop_recording\<close>); the field
  \<open>cause\<close> below is a ghost that names the branch taken.
\<close>

datatype stop_cause = Cancelled | DurationReached | NotLive | RecordingError

text \<open>
  The state of one worker: the shared stop event as the worker sees it, the trace of its
  effects, and the locals of \<^verbatim>\<open>_start_recording_with_stop_event\<close>. The file object is
  two byte strings: \<open>pending\<close> is what \<^verbatim>\<open>write\<close> has accepted and \<^verbatim>\<open>flush\<close> has not yet
  pushed out, \<open>disk\<close> is what has been flushed. \<open>appended\<close> is a ghost: every chunk that
  \<^verbatim>\<open>buffer.extend(chunk)\<close> has appended in the current attempt, concatenated.
\<close>

record state =
  stop_event :: bool
  trace :: "action list"
  buffer :: bytes
  pending :: bytes
  disk :: bytes
  stop_recording :: bool
  appended :: bytes
  cause :: "stop_cause option"

subsection \<open>Scripts of the environment\<close>

text \<open>
  One chunk yielded by \<^verbatim>\<open>download_live_stream\<close>: whether another thread has set the
  stop event since the worker last looked, the bytes, the outcome of the threshold
  write if the code reaches it (\<open>None\<close>: it succeeds), and the reading of
  \<^verbatim>\<open>time.time()\<close> after the chunk. Clock readings are idealised as reals.
\<close>

record chunk_ev =
  set_before :: bool
  chunk :: bytes
  write_exn :: "exn option"
  clock :: real

text \<open>
  One pass of the outer \<^verbatim>\<open>while\<close>: the stop event at the loop head, the answer of
  \<^verbatim>\<open>is_room_alive\<close>, the chunks of this download and how the generator ends (\<open>None\<close>:
  exhausted; \<open>Some x\<close>: it raises \<open>x\<close>), and the outcomes of the write and the flush of
  the \<^verbatim>\<open>finally\<close> block.
\<close>

record iter_ev =
  set_at_head :: bool
  alive :: "exn + bool"
  chunks :: "chunk_ev list"
  ending :: "exn option"
  final_write_exn :: "exn option"
  flush_exn :: "exn option"

text \<open>One call of \<^verbatim>\<open>_manual_mode_with_stop_event\<close>, with the recording it may start.\<close>

record attempt_ev =
  set_at_entry :: bool
  room_alive :: "exn + bool"
  live_url :: "exn + string option"
  current_date :: string
  os_name_nt :: bool
  makedirs_exn :: "exn option"
  open_exn :: "exn option"
  start_time :: real
  iters :: "iter_ev list"
  close_exn :: "exn option"
  convert_exn :: "exn option"
  upload_exn :: "exn option"

text \<open>
  One pass of the automatic loop. \<open>cancel_tick = Some k\<close>: during the wait, another
  thread sets the stop event just before the check of tick \<open>k\<close> (counted from 0).
\<close>

record cycle_ev =
  set_at_loop :: bool
  resolve :: "exn + string"
  attempt :: attempt_ev
  cancel_tick :: "nat option"

section \<open>The stop event\<close>

text \<open>
  \<^verbatim>\<open>self.stop_event.is_set()\<close>: the worker looks at the event; \<open>b\<close> says whether another
  thread has called \<^verbatim>\<open>set()\<close> since the last look. Nothing in the source clears the event.
\<close>

definition is_set :: "bool \<Rightarrow> state \<Rightarrow> state" where
  "is_set b s = (if b then s\<lparr>stop_event := True\<rparr> else s)"

definition emit :: "action \<Rightarrow> state \<Rightarrow> state" where
  "emit a s = s\<lparr>trace := trace s @ [a]\<rparr>"

section \<open>Strings\<close>

definition endswith :: "string \<Rightarrow> string \<Rightarrow> bool" where
  "endswith t suf = (length suf \<le> length t \<and> drop (length t - length suf) t = suf)"

definition backslash :: string where
  "backslash = [CHR 0x5C]"

definition esc :: string where
  "esc = [CHR 0x1B]"

text \<open>\<^verbatim>\<open>str.replace\<close> for a non-empty pattern, leftmost occurrences first.\<close>

fun replace_ne :: "string \<Rightarrow> string \<Rightarrow> string \<Rightarrow> string" where
  "replace_ne old new [] = []"
| "replace_ne old new (c # cs) =
     (if old \<noteq> [] \<and> take (length old) (c # cs) = old
      then new @ replace_ne old new (drop (length old) (c # cs))
      else c # replace_ne old new cs)"

definition replace :: "string \<Rightarrow> string \<Rightarrow> string \<Rightarrow> string" where
  "replace old new t =
     (if old = [] then new @ concat (map (\<lambda>c. c # new) t) else replace_ne old new t)"

section \<open>The output path\<close>

text \<open>Lines 209 to 224 of \<^verbatim>\<open>_start_recording_with_stop_event\<close>.\<close>

definition base_output :: "bool \<Rightarrow> string option \<Rightarrow> string" where
  "base_output nt out =
     (let base = (case out of None \<Rightarrow> [] | Some d \<Rightarrow> d) in
      if base \<noteq> [] then
        (if \<not> (endswith base ''/'' \<or> endswith base backslash)
         then (if nt then base @ backslash else base @ ''/'')
         else base)
      else base)"

definition user_folder :: "bool \<Rightarrow> TikTokRecorder \<Rightarrow> string" where
  "user_folder nt r = base_output nt (rec_output r) @ user r @ ''/''"

definition output_suffix :: "MultiStreamRecorder \<Rightarrow> string \<Rightarrow> string" where
  "output_suffix m thread_name = (if 1 < length (targets m) then ''_'' @ thread_name else [])"

definition output_file :: "MultiStreamRecorder \<Rightarrow> TikTokRecorder \<Rightarrow> string \<Rightarrow> attempt_ev \<Rightarrow> string" where
  "output_file m r thread_name a =
     user_folder (os_name_nt a) r @ ''TK_'' @ user r @ ''_'' @ current_date a
       @ output_suffix m thread_name @ ''_flv.mp4''"

text \<open>
  The naming convention in the words of the specification:
  \<^verbatim>\<open><output_dir>/<username>/TK_<username>_<date>[_<task_label>]_flv.<ext>\<close>.
\<close>

definition spec_output_path ::
  "string \<Rightarrow> string \<Rightarrow> string \<Rightarrow> string option \<Rightarrow> string \<Rightarrow> string" where
  "spec_output_path output_dir username date task_label ext =
     output_dir @ ''/'' @ username @ ''/TK_'' @ username @ ''_'' @ date
       @ (case task_label of None \<Rightarrow> [] | Some l \<Rightarrow> ''_'' @ l) @ ''_flv.'' @ ext"

section \<open>The stream writer\<close>

definition buffer_size :: nat where
  "buffer_size = 512 * 1024"

text \<open>\<^verbatim>\<open>out_file.write(buffer)\<close>: a write that raises is taken to add nothing to the file.\<close>

definition out_file_write :: "exn option \<Rightarrow> state \<Rightarrow> state \<times> exn option" where
  "out_file_write e s =
     (case e of
        None \<Rightarrow> (emit (WriteFile (buffer s)) (s\<lparr>pending := pending s @ buffer s\<rparr>), None)
      | Some x \<Rightarrow> (emit (WriteFailed (buffer s)) s, Some x))"

definition out_file_flush :: "exn option \<Rightarrow> state \<Rightarrow> state \<times> exn option" where
  "out_file_flush e s =
     (case e of
        None \<Rightarrow> (emit FlushFile (s\<lparr>disk := disk s @ pending s, pending := []\<rparr>), None)
      | Some x \<Rightarrow> (s, Some x))"

text \<open>\<^verbatim>\<open>recorder.duration and elapsed_time >= recorder.duration\<close>\<close>

definition duration_reached :: "TikTokRecorder \<Rightarrow> real \<Rightarrow> bool" where
  "duration_reached r elapsed =
     (case duration r of None \<Rightarrow> False | Some d \<Rightarrow> d \<noteq> 0 \<and> real_of_int d \<le> elapsed)"

text \<open>Lines 246 to 249: append the chunk, write and clear at the threshold.\<close>

definition extend_buffer :: "chunk_ev \<Rightarrow> state \<Rightarrow> state \<times> exn option" where
  "extend_buffer c s =
     (let s1 = s\<lparr>buffer := buffer s @ chunk c, appended := appended s @ chunk c\<rparr> in
      if buffer_size \<le> length (buffer s1) then
        (case out_file_write (write_exn c) s1 of
           (s2, Some x) \<Rightarrow> (s2, Some x)
         | (s2, None) \<Rightarrow> (s2\<lparr>buffer := []\<rparr>, None))
      else (s1, None))"

datatype for_exit = Exhausted | Break | Raised exn

text \<open>The \<^verbatim>\<open>for chunk in ...\<close> loop, lines 241 to 254.\<close>

fun download_loop ::
  "TikTokRecorder \<Rightarrow> real \<Rightarrow> chunk_ev list \<Rightarrow> exn option \<Rightarrow> state \<Rightarrow> state \<times> for_exit" where
  "download_loop r t0 [] e s = (s, case e of None \<Rightarrow> Exhausted | Some x \<Rightarrow> Raised x)"
| "download_loop r t0 (c # cs) e s =
     (let s1 = is_set (set_before c) s in
      if stop_event s1 then (s1\<lparr>stop_recording := True, cause := Some Cancelled\<rparr>, Break)
      else
        (case extend_buffer c s1 of
           (s2, Some x) \<Rightarrow> (s2, Raised x)
         | (s2, None) \<Rightarrow>
             if duration_reached r (clock c - t0)
             then (s2\<lparr>stop_recording := True, cause := Some DurationReached\<rparr>, Break)
             else download_loop r t0 cs e s2))"

text \<open>The \<^verbatim>\<open>except Exception\<close> handler, lines 256 to 258.\<close>

definition recording_error :: "string \<Rightarrow> exn \<Rightarrow> state \<Rightarrow> state" where
  "recording_error thread_name x s =
     (emit (LogError (''['' @ thread_name @ ''] Recording error: '' @ str_of x)) s)
       \<lparr>stop_recording := True, cause := Some RecordingError\<rparr>"

text \<open>
  The \<^verbatim>\<open>try\<close> block with its handler, lines 236 to 258. The flag returned says whether
  the \<^verbatim>\<open>break\<close> of line 239 was taken.
\<close>

definition try_body ::
  "string \<Rightarrow> TikTokRecorder \<Rightarrow> real \<Rightarrow> iter_ev \<Rightarrow> state \<Rightarrow> state \<times> bool" where
  "try_body thread_name r t0 it s =
     (let s1 = emit (IsRoomAlive (room_id r)) s in
      case alive it of
        Inl x \<Rightarrow> (recording_error thread_name x s1, False)
      | Inr False \<Rightarrow>
          ((emit (LogInfo (''['' @ thread_name @ ''] User is no longer live. Stopping recording.'')) s1)
             \<lparr>cause := Some NotLive\<rparr>, True)
      | Inr True \<Rightarrow>
          (case download_loop r t0 (chunks it) (ending it) s1 of
             (s2, Raised x) \<Rightarrow> (recording_error thread_name x s2, False)
           | (s2, _) \<Rightarrow> (s2, False)))"

text \<open>The \<^verbatim>\<open>finally\<close> block, lines 260 to 264.\<close>

definition finally_block :: "iter_ev \<Rightarrow> state \<Rightarrow> state \<times> exn option" where
  "finally_block it s =
     (if buffer s \<noteq> [] then
        (case out_file_write (final_write_exn it) s of
           (s1, Some x) \<Rightarrow> (s1, Some x)
         | (s1, None) \<Rightarrow> out_file_flush (flush_exn it) (s1\<lparr>buffer := []\<rparr>))
      else out_file_flush (flush_exn it) s)"

datatype loop_exit = LoopExited | Propagated exn | LoopRunning

text \<open>
  The \<^verbatim>\<open>while not stop_recording and not self.stop_event.is_set()\<close> loop, lines 235 to
  264. With the script used up the loop has left if its condition is already decided
  (the flag or the event is set) and is still running otherwise.
\<close>

fun recording_loop ::
  "string \<Rightarrow> TikTokRecorder \<Rightarrow> real \<Rightarrow> iter_ev list \<Rightarrow> state \<Rightarrow> state \<times> loop_exit" where
  "recording_loop thread_name r t0 [] s =
     (if stop_recording s \<or> stop_event s then (s, LoopExited) else (s, LoopRunning))"
| "recording_loop thread_name r t0 (it # its) s =
     (if stop_recording s then (s, LoopExited)
      else
        (let s1 = is_set (set_at_head it) s in
         if stop_event s1 then (s1, LoopExited)
         else
           (case try_body thread_name r t0 it s1 of
              (s2, brk) \<Rightarrow>
                (case finally_block it s2 of
                   (s3, Some x) \<Rightarrow> (s3, Propagated x)
                 | (s3, None) \<Rightarrow>
                     if brk then (s3, LoopExited)
                     else recording_loop thread_name r t0 its s3))))"

section \<open>One recording attempt\<close>

text \<open>Python's truth value of \<^verbatim>\<open>live_url\<close>: \<^verbatim>\<open>None\<close> and the empty string are false.\<close>

definition truthy_str :: "string option \<Rightarrow> bool" where
  "truthy_str u = (case u of None \<Rightarrow> False | Some t \<Rightarrow> t \<noteq> [])"

text \<open>Lines 268 to 277: conversion and the optional upload; a failure is only logged.\<close>

definition post_process ::
  "string \<Rightarrow> TikTokRecorder \<Rightarrow> string \<Rightarrow> attempt_ev \<Rightarrow> state \<Rightarrow> state" where
  "post_process thread_name r out a s =
     (let err = (\<lambda>x. emit (LogError (''['' @ thread_name @ ''] Post-processing error: '' @ str_of x)));
          s1 = emit (ConvertFlv out) s in
      case convert_exn a of
        Some x \<Rightarrow> err x s1
      | None \<Rightarrow>
          if use_telegram r then
            (let s2 = emit (TelegramUpload (replace ''_flv.mp4'' ''.mp4'' out)) s1 in
             case upload_exn a of Some x \<Rightarrow> err x s2 | None \<Rightarrow> s2)
          else s1)"

text \<open>
  Leaving the \<^verbatim>\<open>with\<close> block closes the file. A close that succeeds pushes out
  what is pending; a close that raises (as it does when the flush it performs fails)
  loses what is pending, and its exception leaves the \<^verbatim>\<open>with\<close> block in place of
  any exception already on its way. \<open>CloseFile\<close> records what the file then holds.
\<close>

definition close_file :: "exn option \<Rightarrow> string \<Rightarrow> state \<Rightarrow> state \<times> exn option" where
  "close_file e out s =
     (case e of
        None \<Rightarrow>
          (emit (CloseFile out (disk s @ pending s)) (s\<lparr>disk := disk s @ pending s, pending := []\<rparr>),
           None)
      | Some x \<Rightarrow> (emit (CloseFile out (disk s)) (s\<lparr>pending := []\<rparr>), Some x))"

text \<open>The locals of a fresh attempt, lines 229 to 233, with the file just opened.\<close>

definition open_file :: "string \<Rightarrow> state \<Rightarrow> state" where
  "open_file out s =
     (emit (OpenFile out) s)
       \<lparr>buffer := [], pending := [], disk := [], stop_recording := False,
        appended := [], cause := None\<rparr>"

text \<open>The text of the exception raised at line 204.\<close>

definition no_live_url_message :: "string \<Rightarrow> string" where
  "no_live_url_message thread_name = ''['' @ thread_name @ ''] Could not retrieve live URL''"

definition start_recording ::
  "MultiStreamRecorder \<Rightarrow> TikTokRecorder \<Rightarrow> string \<Rightarrow> attempt_ev \<Rightarrow> state \<Rightarrow> state \<times> result" where
  "start_recording m r thread_name a s =
     (let s1 = emit (GetLiveUrl (room_id r)) s in
      case live_url a of
        Inl x \<Rightarrow> (s1, Raise x)
      | Inr u \<Rightarrow>
          if \<not> truthy_str u
          then (s1, Raise (Exception (no_live_url_message thread_name)))
          else
            (case makedirs_exn a of
               Some x \<Rightarrow> (s1, Raise x)
             | None \<Rightarrow>
                 (let out = output_file m r thread_name a;
                      s2 = emit (LogInfo (''['' @ thread_name @ ''] '' @ esc @ ''[32mStarted recording''
                                   @ esc @ ''[0m to: '' @ out))
                             (emit (MakeDirs (user_folder (os_name_nt a) r)) s1) in
                  case open_exn a of
                    Some x \<Rightarrow> (s2, Raise x)
                  | None \<Rightarrow>
                      (case recording_loop thread_name r (start_time a) (iters a) (open_file out s2) of
                         (s3, LoopRunning) \<Rightarrow> (s3, Running)
                       | (s3, Propagated x) \<Rightarrow>
                           (case close_file (close_exn a) out s3 of
                              (s4, Some y) \<Rightarrow> (s4, Raise y)
                            | (s4, None) \<Rightarrow> (s4, Raise x))
                       | (s3, LoopExited) \<Rightarrow>
                           (case close_file (close_exn a) out s3 of
                              (s4, Some y) \<Rightarrow> (s4, Raise y)
                            | (s4, None) \<Rightarrow>
                                (post_process thread_name r out a
                                   (emit (LogInfo (''['' @ thread_name @ ''] '' @ esc
                                            @ ''[36mRecording finished'' @ esc @ ''[0m: '' @ out)) s4),
                                 Return))))))"

section \<open>Manual and automatic mode\<close>

text \<open>The text of the exception raised at line 169.\<close>

definition not_live_message :: "string \<Rightarrow> TikTokRecorder \<Rightarrow> string" where
  "not_live_message thread_name r =
     ''['' @ thread_name @ ''] @'' @ user r @ '': '' @ esc
       @ ''[31mUser is not currently live'' @ esc @ ''[0m''"

definition manual_mode ::
  "MultiStreamRecorder \<Rightarrow> TikTokRecorder \<Rightarrow> string \<Rightarrow> attempt_ev \<Rightarrow> state \<Rightarrow> state \<times> result" where
  "manual_mode m r thread_name a s =
     (let s1 = is_set (set_at_entry a) s in
      if stop_event s1 then (s1, Return)
      else
        (let s2 = emit (IsRoomAlive (room_id r)) s1 in
         case room_alive a of
           Inl x \<Rightarrow> (s2, Raise x)
         | Inr False \<Rightarrow>
             (s2, Raise (UserLiveException (not_live_message thread_name r)))
         | Inr True \<Rightarrow> start_recording m r thread_name a s2))"

text \<open>
  The wait of lines 189 to 192: \<open>n\<close> ticks are left, \<open>i\<close> is the index of the next one.
  The flag returned says whether the \<^verbatim>\<open>return\<close> of line 191 was taken.
\<close>

fun wait_interval :: "nat \<Rightarrow> nat \<Rightarrow> nat option \<Rightarrow> state \<Rightarrow> state \<times> bool" where
  "wait_interval 0 i k s = (s, False)"
| "wait_interval (Suc n) i k s =
     (let s1 = is_set (k = Some i) s in
      if stop_event s1 then (s1, True)
      else wait_interval n (Suc i) k (emit Sleep1 s1))"

text \<open>\<^verbatim>\<open>range(self.automatic_interval * 60)\<close> is empty for a non-positive interval.\<close>

definition wait_ticks :: "MultiStreamRecorder \<Rightarrow> nat" where
  "wait_ticks m = nat (automatic_interval m * 60)"

text \<open>The \<^verbatim>\<open>try\<close> block of the automatic loop, lines 181 and 182.\<close>

definition try_cycle ::
  "MultiStreamRecorder \<Rightarrow> TikTokRecorder \<Rightarrow> string \<Rightarrow> cycle_ev \<Rightarrow> state
     \<Rightarrow> (state \<times> result) \<times> TikTokRecorder" where
  "try_cycle m r thread_name c s =
     (let s1 = emit (GetRoomId (user r)) s in
      case resolve c of
        Inl x \<Rightarrow> ((s1, Raise x), r)
      | Inr rid \<Rightarrow> (manual_mode m (r\<lparr>room_id := rid\<rparr>) thread_name (attempt c) s1, r\<lparr>room_id := rid\<rparr>))"

fun automatic_mode ::
  "MultiStreamRecorder \<Rightarrow> TikTokRecorder \<Rightarrow> string \<Rightarrow> cycle_ev list \<Rightarrow> state \<Rightarrow> state \<times> result" where
  "automatic_mode m r thread_name [] s = (s, if stop_event s then Return else Running)"
| "automatic_mode m r thread_name (c # cs) s =
     (let s1 = is_set (set_at_loop c) s in
      if stop_event s1 then (s1, Return)
      else
        (case try_cycle m r thread_name c s1 of
           ((s2, Running), r') \<Rightarrow> (s2, Running)
         | ((s2, Return), r') \<Rightarrow> automatic_mode m r' thread_name cs s2
         | ((s2, Raise (UserLiveException t)), r') \<Rightarrow>
             (case wait_interval (wait_ticks m) 0 (cancel_tick c)
                     (emit (LogInfo (''['' @ thread_name @ ''] '' @ t)) s2) of
                (s3, True) \<Rightarrow> (s3, Return)
              | (s3, False) \<Rightarrow> automatic_mode m r' thread_name cs s3)
         | ((s2, Raise x), r') \<Rightarrow>
             (emit (LogError (''['' @ thread_name @ ''] Unexpected error: '' @ str_of x)) s2, Return)))"

text \<open>
  \<^verbatim>\<open>_record_stream\<close> with \<^verbatim>\<open>_run_recorder_with_stop_event\<close>: the body of one worker
  thread. The constructor of \<^verbatim>\<open>TikTokRecorder\<close> is outside the source at hand; its
  outcome is part of the script.
\<close>

record task_ev =
  init :: "exn + TikTokRecorder"
  manual_ev :: attempt_ev
  automatic_ev :: "cycle_ev list"

definition run_recorder ::
  "MultiStreamRecorder \<Rightarrow> TikTokRecorder \<Rightarrow> string \<Rightarrow> task_ev \<Rightarrow> state \<Rightarrow> state \<times> result" where
  "run_recorder m r thread_name e s =
     (case mode m of
        MANUAL \<Rightarrow> manual_mode m r thread_name (manual_ev e) s
      | AUTOMATIC \<Rightarrow> automatic_mode m r thread_name (automatic_ev e) s)"

fun log_exn :: "string \<Rightarrow> exn \<Rightarrow> action" where
  "log_exn thread_name (UserLiveException t) = LogInfo (''['' @ thread_name @ ''] '' @ t)"
| "log_exn thread_name (TikTokException t) = LogError (''['' @ thread_name @ ''] TikTok error: '' @ t)"
| "log_exn thread_name (Exception t) = LogError (''['' @ thread_name @ ''] Unexpected error: '' @ t)"

definition record_stream ::
  "MultiStreamRecorder \<Rightarrow> string \<Rightarrow> task_ev \<Rightarrow> state \<Rightarrow> state \<times> result" where
  "record_stream m thread_name e s =
     (let s1 = emit (LogInfo (''['' @ thread_name @ ''] Initializing recorder...'')) s in
      case init e of
        Inl x \<Rightarrow> (emit (log_exn thread_name x) s1, Return)
      | Inr r \<Rightarrow>
          (case run_recorder m r thread_name e s1 of
             (s2, Raise x) \<Rightarrow> (emit (log_exn thread_name x) s2, Return)
           | (s2, res) \<Rightarrow> (s2, res)))"

section \<open>The orchestrator\<close>

text \<open>Decimal digits of a natural number, as \<^verbatim>\<open>str\<close> prints them.\<close>

definition digit :: "nat \<Rightarrow> char" where
  "digit n = ''0123456789'' ! n"

function str_nat :: "nat \<Rightarrow> string" where
  "str_nat n = (if n < 10 then [digit n] else str_nat (n div 10) @ [digit (n mod 10)])"
  by pat_completeness auto
termination
  by (relation "measure (\<lambda>n. n)") auto

declare str_nat.simps [simp del]

text \<open>\<^verbatim>\<open>url.split('/')[-1]\<close>: what follows the last slash.\<close>

definition last_segment :: "string \<Rightarrow> string" where
  "last_segment u = rev (takeWhile (\<lambda>c. c \<noteq> CHR ''/'') (rev u))"

definition text_of :: "string option \<Rightarrow> string" where
  "text_of u = (case u of None \<Rightarrow> [] | Some t \<Rightarrow> t)"

text \<open>Lines 90 to 96: the name of the thread of target number \<open>i\<close> (counted from 0).\<close>

definition thread_name :: "nat \<Rightarrow> target \<Rightarrow> string" where
  "thread_name i t =
     (case t of (url, usr, rid) \<Rightarrow>
        ''Stream-'' @ str_nat (i + 1)
          @ (if truthy_str usr then ''-'' @ text_of usr
             else if truthy_str url then ''-'' @ last_segment (text_of url)
             else if truthy_str rid then ''-'' @ text_of rid
             else []))"

fun thread_names :: "nat \<Rightarrow> target list \<Rightarrow> string list" where
  "thread_names i [] = []"
| "thread_names i (t # ts) = thread_name i t # thread_names (Suc i) ts"
















section \<open>Target selection in main\<close>

text \<open>The multi-stream arguments of \<^verbatim>\<open>main\<close>; each list may be absent.\<close>

record args =
  urls :: "string list option"
  users :: "string list option"
  room_ids :: "string list option"

definition truthy :: "'a list option \<Rightarrow> bool" where
  "truthy l = (case l of None \<Rightarrow> False | Some xs \<Rightarrow> xs \<noteq> [])"

definition items :: "'a list option \<Rightarrow> 'a list" where
  "items l = (case l of None \<Rightarrow> [] | Some xs \<Rightarrow> xs)"

text \<open>
  Lines 108 to 119 of \<^verbatim>\<open>main\<close>: \<open>None\<close> is single-stream mode, \<open>Some ts\<close> the target
  list handed to \<^verbatim>\<open>MultiStreamRecorder\<close>.
\<close>

definition multi_stream_targets :: "args \<Rightarrow> target list option" where
  "multi_stream_targets a =
     (if truthy (urls a) \<or> truthy (users a) \<or> truthy (room_ids a) then
        Some (if truthy (urls a) then map (\<lambda>url. (Some url, None, None)) (items (urls a))
              else if truthy (users a) then map (\<lambda>u. (None, Some u, None)) (items (users a))
              else if truthy (room_ids a) then map (\<lambda>rid. (None, None, Some rid)) (items (room_ids a))
              else [])
      else None)"

section \<open>Example inputs\<close>

text \<open>Concrete recorders, scripts and states at which the theorems below are instantiated.\<close>

definition init_state :: state where
  "init_state =
     \<lparr>stop_event = False, trace = [], buffer = [], pending = [], disk = [],
      stop_recording = False, appended = [], cause = None\<rparr>"

definition alice :: TikTokRecorder where
  "alice =
     \<lparr>user = ''alice'', room_id = ''7001'', rec_output = Some ''out'', duration = None,
      use_telegram = False\<rparr>"

definition one_manual :: MultiStreamRecorder where
  "one_manual = \<lparr>targets = [(None, Some ''alice'', None)], mode = MANUAL, automatic_interval = 1\<rparr>"

definition one_automatic :: MultiStreamRecorder where
  "one_automatic = \<lparr>targets = [(None, Some ''alice'', None)], mode = AUTOMATIC, automatic_interval = 1\<rparr>"

definition two_manual :: MultiStreamRecorder where
  "two_manual =
     \<lparr>targets = [(None, Some ''alice'', None), (None, Some ''bob'', None)], mode = MANUAL,
      automatic_interval = 1\<rparr>"

text \<open>An attempt that finds the user not live; the other scripts are updates of it.\<close>

definition not_live_attempt :: attempt_ev where
  "not_live_attempt =
     \<lparr>set_at_entry = False, room_alive = Inr False, live_url = Inr None,
      current_date = ''2025.01.02_03-04-05'', os_name_nt = False, makedirs_exn = None,
      open_exn = None, start_time = 0, iters = [], close_exn = None, convert_exn = None,
      upload_exn = None\<rparr>"

definition no_url_attempt :: attempt_ev where
  "no_url_attempt = not_live_attempt\<lparr>room_alive := Inr True\<rparr>"

definition no_url_cycle :: cycle_ev where
  "no_url_cycle =
     \<lparr>set_at_loop = False, resolve = Inr ''7001'', attempt = no_url_attempt, cancel_tick = None\<rparr>"

definition not_live_cycle :: "nat option \<Rightarrow> cycle_ev" where
  "not_live_cycle k =
     \<lparr>set_at_loop = False, resolve = Inr ''7001'', attempt = not_live_attempt, cancel_tick = k\<rparr>"

definition task_of :: "attempt_ev \<Rightarrow> cycle_ev list \<Rightarrow> task_ev" where
  "task_of a cs = \<lparr>init = Inr alice, manual_ev = a, automatic_ev = cs\<rparr>"

text \<open>A chunk and a pass of the loop in which nothing goes wrong and nobody cancels.\<close>

definition quiet_chunk :: "bytes \<Rightarrow> chunk_ev" where
  "quiet_chunk bs = \<lparr>set_before = False, chunk = bs, write_exn = None, clock = 0\<rparr>"

definition live_iter :: "chunk_ev list \<Rightarrow> iter_ev" where
  "live_iter cs =
     \<lparr>set_at_head = False, alive = Inr True, chunks = cs, ending = None,
      final_write_exn = None, flush_exn = None\<rparr>"

definition ended_iter :: iter_ev where
  "ended_iter =
     \<lparr>set_at_head = False, alive = Inr False, chunks = [], ending = None,
      final_write_exn = None, flush_exn = None\<rparr>"

text \<open>An attempt on a live room with a live URL, recording through the given passes.\<close>

definition recording_attempt :: "iter_ev list \<Rightarrow> attempt_ev" where
  "recording_attempt its =
     not_live_attempt\<lparr>room_alive := Inr True, live_url := Inr (Some ''http://pull.example/live.flv''),
       iters := its\<rparr>"

text \<open>A pass that appends three bytes and whose cleanup write then fails.\<close>

definition lossy_iter :: iter_ev where
  "lossy_iter =
     (live_iter [quiet_chunk [1, 2, 3]])\<lparr>final_write_exn := Some (Exception ''No space left on device'')\<rparr>"












section \<open>Accounting for the appended bytes\<close>

text \<open>
  Every byte appended so far is in the flushed part of the file, in the part written
  but not flushed, or still in the buffer, in this order.
\<close>

definition accounted :: "state \<Rightarrow> bool" where
  "accounted s = (disk s @ pending s @ buffer s = appended s)"

section \<open>Basic facts\<close>

lemma is_set_fields [simp]:
  "stop_event (is_set b s) = (stop_event s \<or> b)"
  "trace (is_set b s) = trace s"
  "buffer (is_set b s) = buffer s"
  "pending (is_set b s) = pending s"
  "disk (is_set b s) = disk s"
  "stop_recording (is_set b s) = stop_recording s"
  "appended (is_set b s) = appended s"
  "cause (is_set b s) = cause s"
  by (simp_all add: is_set_def)

lemma is_set_False [simp]: "is_set False s = s"
  by (simp add: is_set_def)

lemma is_set_already [simp]: "stop_event s \<Longrightarrow> is_set b s = s"
  by (cases s) (simp add: is_set_def)

lemma emit_fields [simp]:
  "stop_event (emit a s) = stop_event s"
  "trace (emit a s) = trace s @ [a]"
  "buffer (emit a s) = buffer s"
  "pending (emit a s) = pending s"
  "disk (emit a s) = disk s"
  "stop_recording (emit a s) = stop_recording s"
  "appended (emit a s) = appended s"
  "cause (emit a s) = cause s"
  by (simp_all add: emit_def)

section \<open>Target selection\<close>

text \<open>
  C10. When more than one of the multi-stream lists (URLs, usernames, room ids) is
  supplied, the target list is built from the first non-empty one in the order URLs,
  usernames, room ids, whatever the later lists hold: they are not looked at.
\<close>

theorem first_supplied_list_wins:
  "(truthy (urls a) \<longrightarrow>
      multi_stream_targets a = Some (map (\<lambda>url. (Some url, None, None)) (items (urls a))))
   \<and> (\<not> truthy (urls a) \<and> truthy (users a) \<longrightarrow>
      multi_stream_targets a = Some (map (\<lambda>u. (None, Some u, None)) (items (users a))))
   \<and> (\<not> truthy (urls a) \<and> \<not> truthy (users a) \<and> truthy (room_ids a) \<longrightarrow>
      multi_stream_targets a = Some (map (\<lambda>rid. (None, None, Some rid)) (items (room_ids a))))"
  by (simp add: multi_stream_targets_def)

theorem first_supplied_list_wins_witness:
  "truthy (Some [''u1'', ''u2'']) \<and>
   multi_stream_targets \<lparr>urls = Some [''u1'', ''u2''], users = Some [''bob''], room_ids = Some [''42'']\<rparr>
     = Some [(Some ''u1'', None, None), (Some ''u2'', None, None)] \<and>
   \<not> truthy (Some ([] :: string list)) \<and> truthy (Some [''bob'']) \<and>
   multi_stream_targets \<lparr>urls = Some [], users = Some [''bob''], room_ids = Some [''42'']\<rparr>
     = Some [(None, Some ''bob'', None)] \<and>
   \<not> truthy (None :: string list option) \<and> truthy (Some [''42'']) \<and>
   multi_stream_targets \<lparr>urls = None, users = Some [], room_ids = Some [''42'']\<rparr>
     = Some [(None, None, Some ''42'')]"
  using first_supplied_list_wins [of "\<lparr>urls = Some [''u1'', ''u2''], users = Some [''bob''], room_ids = Some [''42'']\<rparr>"]
    first_supplied_list_wins [of "\<lparr>urls = Some [], users = Some [''bob''], room_ids = Some [''42'']\<rparr>"]
    first_supplied_list_wins [of "\<lparr>urls = None, users = Some [], room_ids = Some [''42'']\<rparr>"]
  by (simp add: truthy_def items_def)

section \<open>A target that is not live, manual mode\<close>

lemma open_needs_live_and_url:
  assumes "OpenFile p \<in> set (drop (length (trace s)) (trace (fst (manual_mode m r tn a s))))"
  shows "room_alive a = Inr True \<and> (\<exists>u. live_url a = Inr (Some u) \<and> u \<noteq> [])"
proof (rule ccontr)
  assume n: "\<not> (room_alive a = Inr True \<and> (\<exists>u. live_url a = Inr (Some u) \<and> u \<noteq> []))"
  have "OpenFile p \<notin> set (drop (length (trace s)) (trace (fst (manual_mode m r tn a s))))"
  proof (cases "stop_event s \<or> set_at_entry a")
    case True
    then show ?thesis by (auto simp: manual_mode_def Let_def)
  next
    case False
    show ?thesis
    proof (cases "room_alive a = Inr True")
      case ra: False
      with False show ?thesis
        by (auto simp: manual_mode_def Let_def split: sum.splits bool.splits)
    next
      case True
      with n have "\<not> (\<exists>u. live_url a = Inr (Some u) \<and> u \<noteq> [])" by simp
      with True False show ?thesis
        by (auto simp: manual_mode_def start_recording_def truthy_str_def Let_def
            split: sum.splits option.splits)
    qed
  qed
  with assms show False by simp
qed

text \<open>
  C8. In manual mode, when the liveness check answers that the room is not live, the
  manual entry point raises \<open>UserLiveException\<close> with the text "User is not currently
  live"; the worker logs it and ends at once. Its only effects are the two log lines and
  the liveness check: no live URL is asked for, no directory is made and no file is opened.
  In general, a call of the manual entry point opens a file only if the liveness check
  answered that the room is live and a non-empty live URL was returned.
\<close>

theorem manual_not_live_fails:
  assumes "mode m = MANUAL" and "init e = Inr r" and "\<not> stop_event s"
    and "\<not> set_at_entry (manual_ev e)" and "room_alive (manual_ev e) = Inr False"
  shows "manual_mode m r tn (manual_ev e) s =
           (emit (IsRoomAlive (room_id r)) s, Raise (UserLiveException (not_live_message tn r)))
         \<and> record_stream m tn e s =
           (emit (LogInfo (''['' @ tn @ ''] '' @ not_live_message tn r))
              (emit (IsRoomAlive (room_id r))
                 (emit (LogInfo (''['' @ tn @ ''] Initializing recorder...'')) s)), Return)
         \<and> (OpenFile p \<in> set (drop (length (trace s')) (trace (fst (manual_mode m r tn a' s')))) \<longrightarrow>
              room_alive a' = Inr True \<and> (\<exists>u. live_url a' = Inr (Some u) \<and> u \<noteq> []))"
  using assms open_needs_live_and_url [of p s' m r tn a']
  by (simp add: manual_mode_def record_stream_def run_recorder_def)

theorem manual_not_live_fails_witness:
  "mode one_manual = MANUAL \<and> init (task_of not_live_attempt []) = Inr alice
   \<and> \<not> stop_event init_state \<and> \<not> set_at_entry (manual_ev (task_of not_live_attempt []))
   \<and> room_alive (manual_ev (task_of not_live_attempt [])) = Inr False
   \<and> record_stream one_manual ''Stream-1-alice'' (task_of not_live_attempt []) init_state =
       (init_state\<lparr>trace :=
          [LogInfo ''[Stream-1-alice] Initializing recorder...'', IsRoomAlive ''7001'',
           LogInfo (''[Stream-1-alice] [Stream-1-alice] @alice: '' @ esc
              @ ''[31mUser is not currently live'' @ esc @ ''[0m'')]\<rparr>, Return)
   \<and> OpenFile ''out/alice/TK_alice_2025.01.02_03-04-05_flv.mp4''
       \<in> set (drop (length (trace init_state))
           (trace (fst (manual_mode one_manual alice ''Stream-1-alice''
              (recording_attempt [ended_iter]) init_state))))
   \<and> room_alive (recording_attempt [ended_iter]) = Inr True
   \<and> live_url (recording_attempt [ended_iter]) = Inr (Some ''http://pull.example/live.flv'')"
  using manual_not_live_fails [of one_manual "task_of not_live_attempt []" alice init_state
      "''Stream-1-alice''" "''out/alice/TK_alice_2025.01.02_03-04-05_flv.mp4''" init_state
      "recording_attempt [ended_iter]"]
  by (simp add: one_manual_def task_of_def not_live_attempt_def init_state_def alice_def
      not_live_message_def emit_def manual_mode_def start_recording_def recording_attempt_def
      ended_iter_def try_body_def finally_block_def out_file_flush_def truthy_str_def
      output_file_def user_folder_def base_output_def endswith_def backslash_def
      output_suffix_def open_file_def close_file_def post_process_def Let_def esc_def)

section \<open>A live room without a live URL\<close>

text \<open>
  C3, as the claim states it for automatic mode, fails: the room is live, no live URL
  comes back, and the automatic loop does not wait and retry. The plain \<open>Exception\<close> of
  line 204 reaches the handler of line 194, which logs it and leaves the loop. Here the
  script holds a second cycle; the worker returns after the first, without a single
  sleep and without resolving the room again.
\<close>

theorem automatic_no_live_url_counterexample:
  "automatic_mode one_automatic alice ''Stream-1-alice'' [no_url_cycle, no_url_cycle] init_state =
     (init_state\<lparr>trace :=
        [GetRoomId ''alice'', IsRoomAlive ''7001'', GetLiveUrl ''7001'',
         LogError ''[Stream-1-alice] Unexpected error: [Stream-1-alice] Could not retrieve live URL'']\<rparr>,
      Return)"
  by (simp add: no_url_cycle_def no_url_attempt_def not_live_attempt_def init_state_def alice_def
      manual_mode_def start_recording_def try_cycle_def truthy_str_def no_live_url_message_def emit_def)

text \<open>
  C3, amended. When the liveness check succeeds and no live URL is returned, the attempt
  raises a plain \<open>Exception\<close> and the task ends in both modes: in manual mode the worker
  logs "Unexpected error" and returns; in automatic mode the loop logs "Unexpected
  error" and breaks, whatever the interval and whatever cycles would follow, so the
  task does not wait and does not retry. No directory is made and no file is opened.
\<close>

theorem no_live_url_ends_task:
  assumes "\<not> stop_event s" and "\<not> set_at_entry a" and "room_alive a = Inr True"
    and "live_url a = Inr u" and "\<not> truthy_str u"
  shows "(mode m = MANUAL \<and> init e = Inr r \<and> manual_ev e = a \<longrightarrow>
            record_stream m tn e s =
              (emit (LogError (''['' @ tn @ ''] Unexpected error: '' @ no_live_url_message tn))
                 (emit (GetLiveUrl (room_id r))
                    (emit (IsRoomAlive (room_id r))
                       (emit (LogInfo (''['' @ tn @ ''] Initializing recorder...'')) s))), Return))
         \<and> (\<not> set_at_loop c \<and> resolve c = Inr rid \<and> attempt c = a \<longrightarrow>
            automatic_mode m r tn (c # cs) s =
              (emit (LogError (''['' @ tn @ ''] Unexpected error: '' @ no_live_url_message tn))
                 (emit (GetLiveUrl rid)
                    (emit (IsRoomAlive rid)
                       (emit (GetRoomId (user r)) s))), Return))"
  using assms
  by (simp add: manual_mode_def record_stream_def run_recorder_def start_recording_def try_cycle_def)

theorem no_live_url_ends_task_witness:
  "\<not> stop_event init_state \<and> \<not> set_at_entry no_url_attempt \<and> room_alive no_url_attempt = Inr True
   \<and> live_url no_url_attempt = Inr None \<and> \<not> truthy_str None
   \<and> mode one_manual = MANUAL \<and> init (task_of no_url_attempt []) = Inr alice
   \<and> manual_ev (task_of no_url_attempt []) = no_url_attempt
   \<and> snd (record_stream one_manual ''Stream-1-alice'' (task_of no_url_attempt []) init_state) = Return
   \<and> trace (fst (record_stream one_manual ''Stream-1-alice'' (task_of no_url_attempt []) init_state)) =
       [LogInfo ''[Stream-1-alice] Initializing recorder...'', IsRoomAlive ''7001'', GetLiveUrl ''7001'',
        LogError ''[Stream-1-alice] Unexpected error: [Stream-1-alice] Could not retrieve live URL'']
   \<and> \<not> set_at_loop no_url_cycle \<and> resolve no_url_cycle = Inr ''7001''
   \<and> attempt no_url_cycle = no_url_attempt
   \<and> snd (automatic_mode one_automatic alice ''Stream-1-alice'' [no_url_cycle, not_live_cycle None]
            init_state) = Return
   \<and> trace (fst (automatic_mode one_automatic alice ''Stream-1-alice'' [no_url_cycle, not_live_cycle None]
            init_state)) =
       [GetRoomId ''alice'', IsRoomAlive ''7001'', GetLiveUrl ''7001'',
        LogError ''[Stream-1-alice] Unexpected error: [Stream-1-alice] Could not retrieve live URL'']"
  using no_live_url_ends_task [of init_state no_url_attempt None one_manual
      "task_of no_url_attempt []" alice "''Stream-1-alice''" no_url_cycle "''7001''" "[not_live_cycle None]"]
    no_live_url_ends_task [of init_state no_url_attempt None one_automatic
      "task_of no_url_attempt []" alice "''Stream-1-alice''" no_url_cycle "''7001''" "[not_live_cycle None]"]
  by (simp add: one_manual_def task_of_def no_url_attempt_def not_live_attempt_def init_state_def
      alice_def no_url_cycle_def truthy_str_def no_live_url_message_def)

section \<open>The stream writer loses nothing while its cleanup succeeds\<close>

lemma extend_buffer_accounted:
  "extend_buffer c s = (s', x) \<Longrightarrow> accounted s \<Longrightarrow> accounted s'"
  by (auto simp: accounted_def extend_buffer_def out_file_write_def Let_def split: if_splits option.splits)

lemma download_loop_accounted:
  "download_loop r t0 cs e s = (s', x) \<Longrightarrow> accounted s \<Longrightarrow> accounted s'"
proof (induction cs arbitrary: s)
  case Nil
  then show ?case by simp
next
  case (Cons c cs)
  show ?case
  proof (cases "stop_event (is_set (set_before c) s)")
    case True
    with Cons.prems show ?thesis by (auto simp: accounted_def Let_def)
  next
    case False
    obtain s2 y where eb: "extend_buffer c (is_set (set_before c) s) = (s2, y)"
      by (cases "extend_buffer c (is_set (set_before c) s)")
    have i2: "accounted s2"
      using extend_buffer_accounted [OF eb] Cons.prems(2) by (simp add: accounted_def)
    show ?thesis
    proof (cases y)
      case (Some z)
      with Cons.prems(1) False eb i2 show ?thesis by (simp add: Let_def)
    next
      case None
      show ?thesis
      proof (cases "duration_reached r (clock c - t0)")
        case True
        with Cons.prems(1) False eb None i2 show ?thesis by (auto simp: Let_def accounted_def)
      next
        case dr: False
        with Cons.prems(1) False eb None have "download_loop r t0 cs e s2 = (s', x)"
          by (simp add: Let_def)
        from Cons.IH [OF this i2] show ?thesis .
      qed
    qed
  qed
qed

lemma recording_error_fields [simp]:
  "stop_event (recording_error tn x s) = stop_event s"
  "trace (recording_error tn x s) = trace s @ [LogError (''['' @ tn @ ''] Recording error: '' @ str_of x)]"
  "buffer (recording_error tn x s) = buffer s"
  "pending (recording_error tn x s) = pending s"
  "disk (recording_error tn x s) = disk s"
  "stop_recording (recording_error tn x s) = True"
  "appended (recording_error tn x s) = appended s"
  "cause (recording_error tn x s) = Some RecordingError"
  by (simp_all add: recording_error_def)

lemma try_body_accounted:
  assumes "try_body tn r t0 it s = (s', b)" and "accounted s"
  shows "accounted s'"
proof (cases "alive it")
  case (Inl x)
  with assms show ?thesis by (auto simp: try_body_def accounted_def)
next
  case (Inr l)
  show ?thesis
  proof (cases l)
    case False
    with Inr assms show ?thesis by (auto simp: try_body_def accounted_def)
  next
    case True
    obtain s2 y where dl:
      "download_loop r t0 (chunks it) (ending it) (emit (IsRoomAlive (room_id r)) s) = (s2, y)"
      by (cases "download_loop r t0 (chunks it) (ending it) (emit (IsRoomAlive (room_id r)) s)")
    have "accounted (emit (IsRoomAlive (room_id r)) s)" using assms(2) by (simp add: accounted_def)
    from download_loop_accounted [OF dl this] have "accounted s2" .
    with Inr True dl assms(1) show ?thesis
      by (cases y) (auto simp: try_body_def accounted_def)
  qed
qed

lemma finally_block_ok:
  assumes "final_write_exn it = None" and "flush_exn it = None"
  shows "\<exists>s'. finally_block it s = (s', None) \<and> buffer s' = [] \<and> pending s' = []
           \<and> disk s' = disk s @ pending s @ buffer s \<and> appended s' = appended s
           \<and> stop_event s' = stop_event s \<and> stop_recording s' = stop_recording s"
  using assms by (simp add: finally_block_def out_file_write_def out_file_flush_def)

lemma recording_loop_flushed:
  assumes "\<forall>it \<in> set its. final_write_exn it = None \<and> flush_exn it = None"
    and "buffer s = []" and "pending s = []" and "disk s = appended s"
    and "recording_loop tn r t0 its s = (s', x)"
  shows "x \<noteq> Propagated y \<and> buffer s' = [] \<and> pending s' = [] \<and> disk s' = appended s'"
  using assms
proof (induction its arbitrary: s)
  case Nil
  then show ?case by (auto split: if_splits)
next
  case (Cons it its)
  show ?case
  proof (cases "stop_recording s \<or> stop_event (is_set (set_at_head it) s)")
    case True
    with Cons.prems show ?thesis by (auto simp: Let_def split: if_splits)
  next
    case False
    let ?s1 = "is_set (set_at_head it) s"
    obtain s2 brk where tb: "try_body tn r t0 it ?s1 = (s2, brk)"
      by (cases "try_body tn r t0 it ?s1")
    have "accounted ?s1" using Cons.prems(2-4) by (simp add: accounted_def)
    from try_body_accounted [OF tb this] have i2: "accounted s2" .
    from Cons.prems(1) have ok: "final_write_exn it = None" "flush_exn it = None" by simp_all
    from finally_block_ok [OF ok, of s2] obtain s3 where
      fb: "finally_block it s2 = (s3, None)" and f3: "buffer s3 = []" "pending s3 = []"
      and d3: "disk s3 = disk s2 @ pending s2 @ buffer s2" and a3: "appended s3 = appended s2"
      by blast
    from d3 a3 i2 have e3: "disk s3 = appended s3" by (simp add: accounted_def)
    show ?thesis
    proof (cases brk)
      case True
      with Cons.prems(5) False tb fb f3 e3 show ?thesis by (auto simp: Let_def)
    next
      case nb: False
      with Cons.prems(5) False tb fb have "recording_loop tn r t0 its s3 = (s', x)"
        by (simp add: Let_def)
      moreover from Cons.prems(1) have "\<forall>it \<in> set its. final_write_exn it = None \<and> flush_exn it = None"
        by simp
      ultimately show ?thesis using Cons.IH f3 e3 by blast
    qed
  qed
qed


text \<open>
  C1, amended. Whatever ends a pass of the streaming loop (the stream ends, the room is
  no longer live, the duration is reached, the stop event is seen, or an exception is
  raised by the liveness check, by the download or by the threshold write), the cleanup
  block writes what is left in the buffer and flushes the file. Provided the write and
  the flush of the cleanup block do not themselves raise, at the end of every pass, and
  so when the loop is left, the buffer is empty, nothing is pending, and the flushed
  file holds every byte that was appended; no exception leaves the loop.
\<close>

theorem cleanup_flushes_everything:
  assumes "\<forall>it \<in> set its. final_write_exn it = None \<and> flush_exn it = None"
    and "buffer s = []" and "pending s = []" and "disk s = appended s"
  shows "(\<forall>y. snd (recording_loop tn r t0 its s) \<noteq> Propagated y)
         \<and> buffer (fst (recording_loop tn r t0 its s)) = []
         \<and> pending (fst (recording_loop tn r t0 its s)) = []
         \<and> disk (fst (recording_loop tn r t0 its s)) = appended (fst (recording_loop tn r t0 its s))"
  using recording_loop_flushed [OF assms, of tn r t0 "fst (recording_loop tn r t0 its s)"
      "snd (recording_loop tn r t0 its s)"]
  by simp

text \<open>
  C1, as the claim states it, fails when the write of the cleanup block raises: three
  bytes are appended, the stream ends, the cleanup write raises; the exception leaves
  the loop and the attempt, the file is closed empty, and the three bytes are lost.
\<close>

theorem lost_bytes_counterexample:
  "snd (recording_loop ''Stream-1-alice'' alice 0 [lossy_iter] init_state)
     = Propagated (Exception ''No space left on device'')
   \<and> appended (fst (recording_loop ''Stream-1-alice'' alice 0 [lossy_iter] init_state)) = [1, 2, 3]
   \<and> disk (fst (recording_loop ''Stream-1-alice'' alice 0 [lossy_iter] init_state)) = []
   \<and> pending (fst (recording_loop ''Stream-1-alice'' alice 0 [lossy_iter] init_state)) = []
   \<and> snd (manual_mode one_manual alice ''Stream-1-alice'' (recording_attempt [lossy_iter]) init_state)
     = Raise (Exception ''No space left on device'')
   \<and> trace (fst (manual_mode one_manual alice ''Stream-1-alice'' (recording_attempt [lossy_iter]) init_state))
     = [IsRoomAlive ''7001'', GetLiveUrl ''7001'', MakeDirs ''out/alice/'',
        LogInfo (''[Stream-1-alice] '' @ esc @ ''[32mStarted recording'' @ esc
           @ ''[0m to: out/alice/TK_alice_2025.01.02_03-04-05_flv.mp4''),
        OpenFile ''out/alice/TK_alice_2025.01.02_03-04-05_flv.mp4'',
        IsRoomAlive ''7001'', WriteFailed [1, 2, 3],
        CloseFile ''out/alice/TK_alice_2025.01.02_03-04-05_flv.mp4'' []]"
  by (simp add: lossy_iter_def live_iter_def quiet_chunk_def init_state_def alice_def try_body_def
      finally_block_def extend_buffer_def buffer_size_def duration_reached_def
      out_file_write_def out_file_flush_def manual_mode_def start_recording_def
      recording_attempt_def not_live_attempt_def truthy_str_def output_file_def user_folder_def
      base_output_def endswith_def backslash_def output_suffix_def one_manual_def open_file_def
      close_file_def emit_def Let_def esc_def)

theorem cleanup_flushes_everything_witness:
  "final_write_exn ((live_iter [quiet_chunk [1, 2, 3]])\<lparr>ending := Some (Exception ''connection reset'')\<rparr>) = None
   \<and> flush_exn ((live_iter [quiet_chunk [1, 2, 3]])\<lparr>ending := Some (Exception ''connection reset'')\<rparr>) = None
   \<and> buffer init_state = [] \<and> pending init_state = [] \<and> disk init_state = appended init_state
   \<and> snd (recording_loop ''Stream-1-alice'' alice 0
        [(live_iter [quiet_chunk [1, 2, 3]])\<lparr>ending := Some (Exception ''connection reset'')\<rparr>] init_state)
       = LoopExited
   \<and> disk (fst (recording_loop ''Stream-1-alice'' alice 0
        [(live_iter [quiet_chunk [1, 2, 3]])\<lparr>ending := Some (Exception ''connection reset'')\<rparr>] init_state))
       = [1, 2, 3]
   \<and> appended (fst (recording_loop ''Stream-1-alice'' alice 0
        [(live_iter [quiet_chunk [1, 2, 3]])\<lparr>ending := Some (Exception ''connection reset'')\<rparr>] init_state))
       = [1, 2, 3]
   \<and> final_write_exn (live_iter [(quiet_chunk (replicate 524288 7))\<lparr>write_exn := Some (Exception ''EIO'')\<rparr>]) = None
   \<and> flush_exn (live_iter [(quiet_chunk (replicate 524288 7))\<lparr>write_exn := Some (Exception ''EIO'')\<rparr>]) = None
   \<and> snd (recording_loop ''Stream-1-alice'' alice 0
        [live_iter [(quiet_chunk (replicate 524288 7))\<lparr>write_exn := Some (Exception ''EIO'')\<rparr>]] init_state)
       = LoopExited
   \<and> disk (fst (recording_loop ''Stream-1-alice'' alice 0
        [live_iter [(quiet_chunk (replicate 524288 7))\<lparr>write_exn := Some (Exception ''EIO'')\<rparr>]] init_state))
       = replicate 524288 7
   \<and> appended (fst (recording_loop ''Stream-1-alice'' alice 0
        [live_iter [(quiet_chunk (replicate 524288 7))\<lparr>write_exn := Some (Exception ''EIO'')\<rparr>]] init_state))
       = replicate 524288 7"
  using cleanup_flushes_everything [of
      "[(live_iter [quiet_chunk [1, 2, 3]])\<lparr>ending := Some (Exception ''connection reset'')\<rparr>]"
      init_state "''Stream-1-alice''" alice 0]
    cleanup_flushes_everything [of
      "[live_iter [(quiet_chunk (replicate 524288 7))\<lparr>write_exn := Some (Exception ''EIO'')\<rparr>]]"
      init_state "''Stream-1-alice''" alice 0]
  by (simp add: live_iter_def quiet_chunk_def init_state_def alice_def try_body_def
      finally_block_def extend_buffer_def buffer_size_def duration_reached_def
      out_file_write_def out_file_flush_def)

section \<open>Writing at the threshold\<close>






section \<open>Cancellation\<close>

lemma wait_interval_cancelled:
  assumes "\<not> stop_event s" and "k < n"
  shows "snd (wait_interval n i (Some (i + k)) s)
         \<and> stop_event (fst (wait_interval n i (Some (i + k)) s))
         \<and> trace (fst (wait_interval n i (Some (i + k)) s)) = trace s @ replicate k Sleep1"
  using assms
proof (induction n arbitrary: i k s)
  case 0
  then show ?case by simp
next
  case (Suc n)
  show ?case
  proof (cases k)
    case 0
    then show ?thesis by (simp add: Let_def)
  next
    case (Suc j)
    with Suc.prems have j: "j < n" and ns: "\<not> stop_event (emit Sleep1 s)" by simp_all
    from Suc.IH [OF ns j, of "Suc i"] Suc.prems(1) Suc show ?thesis
      by (simp add: Let_def replicate_app_Cons_same)
  qed
qed

lemma wait_interval_completed:
  assumes "\<not> stop_event s"
  shows "\<not> snd (wait_interval n i None s)
         \<and> \<not> stop_event (fst (wait_interval n i None s))
         \<and> trace (fst (wait_interval n i None s)) = trace s @ replicate n Sleep1"
  using assms
proof (induction n arbitrary: i s)
  case 0
  then show ?case by simp
next
  case (Suc n)
  from Suc.prems have ns: "\<not> stop_event (emit Sleep1 s)" by simp
  from Suc.IH [OF ns, of "Suc i"] Suc.prems show ?case
    by (simp add: Let_def replicate_app_Cons_same)
qed

lemma download_loop_cancelled:
  assumes "stop_event s \<or> set_before c"
  shows "download_loop r t0 (c # cs) e s =
           ((is_set (set_before c) s)\<lparr>stop_recording := True, cause := Some Cancelled\<rparr>, Break)"
  using assms by (auto simp: Let_def)


lemma recording_loop_cancelled_at_head:
  assumes "stop_event s \<or> set_at_head it"
  shows "snd (recording_loop tn r t0 (it # its) s) = LoopExited
         \<and> trace (fst (recording_loop tn r t0 (it # its) s)) = trace s
         \<and> appended (fst (recording_loop tn r t0 (it # its) s)) = appended s
         \<and> buffer (fst (recording_loop tn r t0 (it # its) s)) = buffer s"
  using assms by (auto simp: Let_def)




lemma automatic_wait_cancelled:
  assumes "\<not> stop_event s" and "\<not> set_at_loop c" and "resolve c = Inr rid"
    and "\<not> set_at_entry (attempt c)" and "room_alive (attempt c) = Inr False"
    and "cancel_tick c = Some k" and "k < wait_ticks m"
  shows "snd (automatic_mode m r tn (c # cs) s) = Return
         \<and> stop_event (fst (automatic_mode m r tn (c # cs) s))
         \<and> trace (fst (automatic_mode m r tn (c # cs) s)) =
             trace s @ [GetRoomId (user r), IsRoomAlive rid,
                        LogInfo (''['' @ tn @ ''] '' @ not_live_message tn r)]
                     @ replicate k Sleep1"
proof -
  let ?s2 = "emit (LogInfo (''['' @ tn @ ''] '' @ not_live_message tn r))
               (emit (IsRoomAlive rid) (emit (GetRoomId (user r)) s))"
  have tc: "try_cycle m r tn c s =
      ((emit (IsRoomAlive rid) (emit (GetRoomId (user r)) s),
        Raise (UserLiveException (not_live_message tn r))), r\<lparr>room_id := rid\<rparr>)"
    using assms(1,3,4,5) by (simp add: try_cycle_def manual_mode_def not_live_message_def)
  have ns: "\<not> stop_event ?s2" using assms(1) by simp
  from wait_interval_cancelled [OF ns assms(7), of 0]
  have w: "snd (wait_interval (wait_ticks m) 0 (Some k) ?s2)"
    "stop_event (fst (wait_interval (wait_ticks m) 0 (Some k) ?s2))"
    "trace (fst (wait_interval (wait_ticks m) 0 (Some k) ?s2)) = trace ?s2 @ replicate k Sleep1"
    by simp_all
  obtain s3 b where eq: "wait_interval (wait_ticks m) 0 (Some k) ?s2 = (s3, b)"
    by (cases "wait_interval (wait_ticks m) 0 (Some k) ?s2")
  with w have b and s3: "stop_event s3" "trace s3 = trace ?s2 @ replicate k Sleep1" by simp_all
  have "automatic_mode m r tn (c # cs) s = (s3, Return)"
    using assms(1,2,6) tc eq \<open>b\<close> by (simp add: Let_def)
  with s3 show ?thesis by simp
qed


lemma post_process_fields [simp]:
  "stop_event (post_process tn r out a s) = stop_event s"
  "buffer (post_process tn r out a s) = buffer s"
  "pending (post_process tn r out a s) = pending s"
  "disk (post_process tn r out a s) = disk s"
  "appended (post_process tn r out a s) = appended s"
  "cause (post_process tn r out a s) = cause s"
  by (simp_all add: post_process_def Let_def split: option.splits)




text \<open>
  C4. The retry wait checks the stop event before each of its one-second sleeps, for
  \<open>automatic_interval * 60\<close> ticks. If the event is set before the check of tick \<open>k\<close>, the
  wait has slept exactly \<open>k\<close> times and returns at that check: the remaining ticks are
  not slept, and the automatic loop returns without another cycle. A wait that nobody
  cancels sleeps all its ticks. In the streaming loop, once the event is seen set (at
  the check before a chunk, or at the head of the outer loop), nothing more is appended
  to the buffer.
\<close>

theorem cancellation_stops_wait_and_stream:
  "wait_ticks m = nat (automatic_interval m * 60)
   \<and> (\<not> stop_event s \<and> k < n \<longrightarrow>
        snd (wait_interval n 0 (Some k) s)
        \<and> stop_event (fst (wait_interval n 0 (Some k) s))
        \<and> trace (fst (wait_interval n 0 (Some k) s)) = trace s @ replicate k Sleep1)
   \<and> (\<not> stop_event s \<longrightarrow>
        \<not> snd (wait_interval n 0 None s)
        \<and> trace (fst (wait_interval n 0 None s)) = trace s @ replicate n Sleep1)
   \<and> (\<not> stop_event s \<and> \<not> set_at_loop c \<and> resolve c = Inr rid
        \<and> \<not> set_at_entry (attempt c) \<and> room_alive (attempt c) = Inr False
        \<and> cancel_tick c = Some k \<and> k < wait_ticks m \<longrightarrow>
        snd (automatic_mode m r tn (c # cs) s) = Return
        \<and> stop_event (fst (automatic_mode m r tn (c # cs) s))
        \<and> trace (fst (automatic_mode m r tn (c # cs) s)) =
            trace s @ [GetRoomId (user r), IsRoomAlive rid,
                       LogInfo (''['' @ tn @ ''] '' @ not_live_message tn r)]
                    @ replicate k Sleep1)
   \<and> (stop_event s \<or> set_before ch \<longrightarrow>
        snd (download_loop r t0 (ch # chs) e s) = Break
        \<and> appended (fst (download_loop r t0 (ch # chs) e s)) = appended s
        \<and> buffer (fst (download_loop r t0 (ch # chs) e s)) = buffer s)
   \<and> (stop_event s \<or> set_at_head it \<longrightarrow>
        snd (recording_loop tn r t0 (it # its) s) = LoopExited
        \<and> appended (fst (recording_loop tn r t0 (it # its) s)) = appended s
        \<and> buffer (fst (recording_loop tn r t0 (it # its) s)) = buffer s)"
proof (intro conjI impI)
  show "wait_ticks m = nat (automatic_interval m * 60)" by (simp add: wait_ticks_def)
next
  assume h: "\<not> stop_event s \<and> k < n"
  then have a: "\<not> stop_event s" and b: "k < n" by simp_all
  from wait_interval_cancelled [OF a b, of 0]
  show "snd (wait_interval n 0 (Some k) s)"
    and "stop_event (fst (wait_interval n 0 (Some k) s))"
    and "trace (fst (wait_interval n 0 (Some k) s)) = trace s @ replicate k Sleep1"
    by simp_all
next
  assume a: "\<not> stop_event s"
  from wait_interval_completed [OF a, of n 0]
  show "\<not> snd (wait_interval n 0 None s)"
    and "trace (fst (wait_interval n 0 None s)) = trace s @ replicate n Sleep1"
    by simp_all
next
  assume h: "\<not> stop_event s \<and> \<not> set_at_loop c \<and> resolve c = Inr rid
        \<and> \<not> set_at_entry (attempt c) \<and> room_alive (attempt c) = Inr False
        \<and> cancel_tick c = Some k \<and> k < wait_ticks m"
  then have "snd (automatic_mode m r tn (c # cs) s) = Return
         \<and> stop_event (fst (automatic_mode m r tn (c # cs) s))
         \<and> trace (fst (automatic_mode m r tn (c # cs) s)) =
             trace s @ [GetRoomId (user r), IsRoomAlive rid,
                        LogInfo (''['' @ tn @ ''] '' @ not_live_message tn r)]
                     @ replicate k Sleep1"
    by (intro automatic_wait_cancelled) simp_all
  then show "snd (automatic_mode m r tn (c # cs) s) = Return"
    and "stop_event (fst (automatic_mode m r tn (c # cs) s))"
    and "trace (fst (automatic_mode m r tn (c # cs) s)) =
            trace s @ [GetRoomId (user r), IsRoomAlive rid,
                       LogInfo (''['' @ tn @ ''] '' @ not_live_message tn r)]
                    @ replicate k Sleep1"
    by simp_all
next
  assume h: "stop_event s \<or> set_before ch"
  from download_loop_cancelled [OF h, of r t0 chs e]
  show "snd (download_loop r t0 (ch # chs) e s) = Break"
    and "appended (fst (download_loop r t0 (ch # chs) e s)) = appended s"
    and "buffer (fst (download_loop r t0 (ch # chs) e s)) = buffer s"
    by simp_all
next
  assume h: "stop_event s \<or> set_at_head it"
  from recording_loop_cancelled_at_head [OF h, of tn r t0 its]
  show "snd (recording_loop tn r t0 (it # its) s) = LoopExited"
    and "appended (fst (recording_loop tn r t0 (it # its) s)) = appended s"
    and "buffer (fst (recording_loop tn r t0 (it # its) s)) = buffer s"
    by simp_all
qed

theorem cancellation_stops_wait_and_stream_witness:
  "wait_ticks one_automatic = 60
   \<and> \<not> stop_event init_state \<and> (2 :: nat) < 60
   \<and> snd (wait_interval 60 0 (Some 2) init_state)
   \<and> trace (fst (wait_interval 60 0 (Some 2) init_state)) = [Sleep1, Sleep1]
   \<and> \<not> snd (wait_interval 3 0 None init_state)
   \<and> trace (fst (wait_interval 3 0 None init_state)) = [Sleep1, Sleep1, Sleep1]
   \<and> \<not> set_at_loop (not_live_cycle (Some 2)) \<and> resolve (not_live_cycle (Some 2)) = Inr ''7001''
   \<and> \<not> set_at_entry (attempt (not_live_cycle (Some 2)))
   \<and> room_alive (attempt (not_live_cycle (Some 2))) = Inr False
   \<and> cancel_tick (not_live_cycle (Some 2)) = Some 2 \<and> 2 < wait_ticks one_automatic
   \<and> snd (automatic_mode one_automatic alice ''Stream-1-alice''
            [not_live_cycle (Some 2), not_live_cycle None] init_state) = Return
   \<and> trace (fst (automatic_mode one_automatic alice ''Stream-1-alice''
            [not_live_cycle (Some 2), not_live_cycle None] init_state)) =
       [GetRoomId ''alice'', IsRoomAlive ''7001'',
        LogInfo (''[Stream-1-alice] [Stream-1-alice] @alice: '' @ esc
           @ ''[31mUser is not currently live'' @ esc @ ''[0m''),
        Sleep1, Sleep1]
   \<and> set_before ((quiet_chunk [4, 5])\<lparr>set_before := True\<rparr>)
   \<and> snd (download_loop alice 0 [(quiet_chunk [4, 5])\<lparr>set_before := True\<rparr>, quiet_chunk [6]] None
            (init_state\<lparr>buffer := [1, 2, 3], appended := [1, 2, 3]\<rparr>)) = Break
   \<and> appended (fst (download_loop alice 0 [(quiet_chunk [4, 5])\<lparr>set_before := True\<rparr>, quiet_chunk [6]] None
            (init_state\<lparr>buffer := [1, 2, 3], appended := [1, 2, 3]\<rparr>))) = [1, 2, 3]
   \<and> set_at_head ((live_iter [quiet_chunk [6]])\<lparr>set_at_head := True\<rparr>)
   \<and> snd (recording_loop ''Stream-1-alice'' alice 0 [(live_iter [quiet_chunk [6]])\<lparr>set_at_head := True\<rparr>]
            init_state) = LoopExited
   \<and> appended (fst (recording_loop ''Stream-1-alice'' alice 0
            [(live_iter [quiet_chunk [6]])\<lparr>set_at_head := True\<rparr>] init_state)) = []"
  using cancellation_stops_wait_and_stream [of one_automatic init_state 2 60
      "not_live_cycle (Some 2)" "''7001''" alice "''Stream-1-alice''" "[not_live_cycle None]"
      "(quiet_chunk [4, 5])\<lparr>set_before := True\<rparr>" 0 "[quiet_chunk [6]]" None
      "(live_iter [quiet_chunk [6]])\<lparr>set_at_head := True\<rparr>" "[]"]
    cancellation_stops_wait_and_stream [of one_automatic init_state 2 3
      "not_live_cycle (Some 2)" "''7001''" alice "''Stream-1-alice''" "[not_live_cycle None]"
      "(quiet_chunk [4, 5])\<lparr>set_before := True\<rparr>" 0 "[quiet_chunk [6]]" None
      "(live_iter [quiet_chunk [6]])\<lparr>set_at_head := True\<rparr>" "[]"]
    cancellation_stops_wait_and_stream [of one_automatic
      "init_state\<lparr>buffer := [1, 2, 3], appended := [1, 2, 3]\<rparr>" 2 3
      "not_live_cycle (Some 2)" "''7001''" alice "''Stream-1-alice''" "[not_live_cycle None]"
      "(quiet_chunk [4, 5])\<lparr>set_before := True\<rparr>" 0 "[quiet_chunk [6]]" None
      "(live_iter [quiet_chunk [6]])\<lparr>set_at_head := True\<rparr>" "[]"]
  by (simp add: one_automatic_def init_state_def not_live_cycle_def not_live_attempt_def
      alice_def quiet_chunk_def live_iter_def wait_ticks_def not_live_message_def
      numeral_2_eq_2 numeral_3_eq_3)





section \<open>Duration and cancellation at the same chunk\<close>


lemma extend_buffer_appended [simp]:
  "appended (fst (extend_buffer ch s)) = appended s @ chunk ch"
  by (simp add: extend_buffer_def out_file_write_def Let_def split: option.splits)






section \<open>The output path and the order of the file operations\<close>

lemma extend_buffer_trace: "prefix (trace s) (trace (fst (extend_buffer c s)))"
  by (simp add: extend_buffer_def out_file_write_def Let_def split: option.splits)

lemma download_loop_trace: "prefix (trace s) (trace (fst (download_loop r t0 cs e s)))"
proof (induction cs arbitrary: s)
  case Nil
  then show ?case by simp
next
  case (Cons c cs)
  show ?case
  proof (cases "stop_event s \<or> set_before c")
    case True
    then show ?thesis by (simp add: download_loop_cancelled)
  next
    case False
    obtain s2 y where eb: "extend_buffer c s = (s2, y)" by (cases "extend_buffer c s")
    from extend_buffer_trace [of s c] eb have p2: "prefix (trace s) (trace s2)" by simp
    from Cons.IH [of s2] p2 have "prefix (trace s) (trace (fst (download_loop r t0 cs e s2)))"
      by (rule prefix_order.trans [rotated])
    with p2 eb False show ?thesis by (simp add: Let_def split: option.splits)
  qed
qed

lemma try_body_trace: "prefix (trace s) (trace (fst (try_body tn r t0 it s)))"
proof -
  let ?s1 = "emit (IsRoomAlive (room_id r)) s"
  have "prefix (trace ?s1) (trace (fst (download_loop r t0 (chunks it) (ending it) ?s1)))"
    by (rule download_loop_trace)
  then have "prefix (trace s) (trace (fst (download_loop r t0 (chunks it) (ending it) ?s1)))"
    by (simp add: append_prefixD)
  then show ?thesis
    by (auto simp: try_body_def Let_def split: sum.splits bool.splits prod.splits for_exit.splits)
qed

lemma finally_block_trace: "prefix (trace s) (trace (fst (finally_block it s)))"
  by (simp add: finally_block_def out_file_write_def out_file_flush_def split: option.splits)

lemma recording_loop_trace: "prefix (trace s) (trace (fst (recording_loop tn r t0 its s)))"
proof (induction its arbitrary: s)
  case Nil
  then show ?case by simp
next
  case (Cons it its)
  show ?case
  proof (cases "stop_recording s \<or> stop_event s \<or> set_at_head it")
    case True
    then show ?thesis by (auto simp: Let_def)
  next
    case False
    obtain s2 brk where tb: "try_body tn r t0 it s = (s2, brk)" by (cases "try_body tn r t0 it s")
    obtain s3 y where fb: "finally_block it s2 = (s3, y)" by (cases "finally_block it s2")
    from try_body_trace [of s tn r t0 it] tb have p2: "prefix (trace s) (trace s2)" by simp
    from finally_block_trace [of s2 it] fb have "prefix (trace s2) (trace s3)" by simp
    with p2 have p3: "prefix (trace s) (trace s3)" by (rule prefix_order.trans)
    from Cons.IH [of s3] p3 have "prefix (trace s) (trace (fst (recording_loop tn r t0 its s3)))"
      by (rule prefix_order.trans [rotated])
    with p3 tb fb False show ?thesis by (simp add: Let_def split: option.splits)
  qed
qed

lemma post_process_trace: "prefix (trace s) (trace (post_process tn r out a s))"
  by (simp add: post_process_def Let_def split: option.splits)

lemma close_file_trace: "prefix (trace s) (trace (fst (close_file e out s)))"
  by (simp add: close_file_def split: option.splits)

lemma start_recording_trace:
  assumes "live_url a = Inr (Some u)" and "u \<noteq> []" and "makedirs_exn a = None" and "open_exn a = None"
  shows "prefix (trace s @ [GetLiveUrl (room_id r), MakeDirs (user_folder (os_name_nt a) r),
            LogInfo (''['' @ tn @ ''] '' @ esc @ ''[32mStarted recording'' @ esc @ ''[0m to: ''
               @ output_file m r tn a),
            OpenFile (output_file m r tn a)])
          (trace (fst (start_recording m r tn a s)))"
proof -
  let ?out = "output_file m r tn a"
  let ?s2 = "emit (LogInfo (''['' @ tn @ ''] '' @ esc @ ''[32mStarted recording'' @ esc @ ''[0m to: '' @ ?out))
               (emit (MakeDirs (user_folder (os_name_nt a) r)) (emit (GetLiveUrl (room_id r)) s))"
  let ?s3 = "open_file ?out ?s2"
  let ?pre = "trace s @ [GetLiveUrl (room_id r), MakeDirs (user_folder (os_name_nt a) r),
            LogInfo (''['' @ tn @ ''] '' @ esc @ ''[32mStarted recording'' @ esc @ ''[0m to: '' @ ?out),
            OpenFile ?out]"
  have t3: "trace ?s3 = ?pre" by (simp add: open_file_def)
  obtain s4 x where rl: "recording_loop tn r (start_time a) (iters a) ?s3 = (s4, x)"
    by (cases "recording_loop tn r (start_time a) (iters a) ?s3")
  from recording_loop_trace [of ?s3 tn r "start_time a" "iters a"] rl t3
  have p4: "prefix ?pre (trace s4)" by simp
  obtain s5 z where cf: "close_file (close_exn a) ?out s4 = (s5, z)"
    by (cases "close_file (close_exn a) ?out s4")
  from close_file_trace [of s4 "close_exn a" ?out] cf have "prefix (trace s4) (trace s5)" by simp
  with p4 have p5: "prefix ?pre (trace s5)" by (rule prefix_order.trans)
  show ?thesis
  proof (cases x)
    case LoopExited
    show ?thesis
    proof (cases z)
      case None
      let ?s6 = "emit (LogInfo (''['' @ tn @ ''] '' @ esc @ ''[36mRecording finished'' @ esc @ ''[0m: '' @ ?out)) s5"
      from p5 have "prefix ?pre (trace ?s6)" by simp
      then have "prefix ?pre (trace (post_process tn r ?out a ?s6))"
        using post_process_trace [of ?s6 tn r ?out a] by (rule prefix_order.trans)
      moreover have "start_recording m r tn a s = (post_process tn r ?out a ?s6, Return)"
        using assms rl cf LoopExited None by (simp add: start_recording_def truthy_str_def Let_def)
      ultimately show ?thesis by simp
    next
      case (Some y)
      have "start_recording m r tn a s = (s5, Raise y)"
        using assms rl cf LoopExited Some by (simp add: start_recording_def truthy_str_def Let_def)
      with p5 show ?thesis by simp
    qed
  next
    case (Propagated y)
    have "\<exists>w. start_recording m r tn a s = (s5, Raise w)"
      using assms rl cf Propagated
      by (cases z) (simp_all add: start_recording_def truthy_str_def Let_def)
    with p5 show ?thesis by auto
  next
    case LoopRunning
    have "start_recording m r tn a s = (s4, Running)"
      using assms rl LoopRunning by (simp add: start_recording_def truthy_str_def Let_def)
    with p4 show ?thesis by simp
  qed
qed

lemma base_output_cases:
  "base_output nt None = []"
  "base_output nt (Some []) = []"
  "d \<noteq> [] \<Longrightarrow> endswith d ''/'' \<or> endswith d backslash \<Longrightarrow> base_output nt (Some d) = d"
  "d \<noteq> [] \<Longrightarrow> \<not> endswith d ''/'' \<Longrightarrow> \<not> endswith d backslash \<Longrightarrow>
     base_output nt (Some d) = d @ (if nt then backslash else ''/'')"
  by (auto simp: base_output_def)

text \<open>
  C7, as the claim states it, fails where the code normalises the directory. With no
  output directory configured (the default) the path is relative, \<^verbatim>\<open>alice/TK_...\<close>:
  it is not \<^verbatim>\<open><output_dir>/alice/TK_...\<close> for the empty directory, which would be
  \<^verbatim>\<open>/alice/TK_...\<close>, nor for any other directory.
\<close>

theorem output_path_counterexample:
  "output_file one_manual (alice\<lparr>rec_output := None\<rparr>) ''Stream-1-alice'' (recording_attempt [])
     = ''alice/TK_alice_2025.01.02_03-04-05_flv.mp4''
   \<and> spec_output_path [] ''alice'' ''2025.01.02_03-04-05'' None ''mp4''
     = ''/alice/TK_alice_2025.01.02_03-04-05_flv.mp4''
   \<and> \<not> (\<exists>d. output_file one_manual (alice\<lparr>rec_output := None\<rparr>) ''Stream-1-alice''
               (recording_attempt [])
             = spec_output_path d ''alice'' ''2025.01.02_03-04-05'' None ''mp4'')"
proof (intro conjI notI)
  show p: "output_file one_manual (alice\<lparr>rec_output := None\<rparr>) ''Stream-1-alice'' (recording_attempt [])
     = ''alice/TK_alice_2025.01.02_03-04-05_flv.mp4''"
    by (simp add: output_file_def user_folder_def base_output_def output_suffix_def one_manual_def
        alice_def recording_attempt_def not_live_attempt_def)
  show "spec_output_path [] ''alice'' ''2025.01.02_03-04-05'' None ''mp4''
     = ''/alice/TK_alice_2025.01.02_03-04-05_flv.mp4''"
    by (simp add: spec_output_path_def)
  assume "\<exists>d. output_file one_manual (alice\<lparr>rec_output := None\<rparr>) ''Stream-1-alice''
               (recording_attempt [])
             = spec_output_path d ''alice'' ''2025.01.02_03-04-05'' None ''mp4''"
  then obtain d where "''alice/TK_alice_2025.01.02_03-04-05_flv.mp4''
      = spec_output_path d ''alice'' ''2025.01.02_03-04-05'' None ''mp4''"
    using p by auto
  then have "length ''alice/TK_alice_2025.01.02_03-04-05_flv.mp4''
      = length (spec_output_path d ''alice'' ''2025.01.02_03-04-05'' None ''mp4'')"
    by (rule arg_cong)
  then show False by (simp add: spec_output_path_def)
qed

text \<open>
  C7, amended. The output file of an attempt is
  \<^verbatim>\<open><prefix><username>/TK_<username>_<date>[_<thread name>]_flv.mp4\<close>; the thread name
  is appended exactly when the recorder has more than one target. The prefix is the
  configured output directory with a separator ensured: for a directory that is not
  empty and does not end in a separator, on a system other than Windows, the path is the
  one of the naming convention, \<^verbatim>\<open><output_dir>/<username>/TK_...\<close>; a directory
  that already ends in \<^verbatim>\<open>/\<close> or a backslash is taken as it is, Windows appends a
  backslash, and without a directory the prefix is empty. The directory of the user is
  made before the file is opened, so before anything is written; if making it raises,
  no file is opened.
\<close>

theorem output_path_format:
  "output_file m r tn a =
     base_output (os_name_nt a) (rec_output r) @ user r @ ''/TK_'' @ user r @ ''_'' @ current_date a
       @ (if 1 < length (targets m) then ''_'' @ tn else []) @ ''_flv.mp4''
   \<and> user_folder (os_name_nt a) r = base_output (os_name_nt a) (rec_output r) @ user r @ ''/''
   \<and> (rec_output r = Some d \<and> d \<noteq> [] \<and> \<not> endswith d ''/'' \<and> \<not> endswith d backslash
        \<and> \<not> os_name_nt a \<longrightarrow>
        output_file m r tn a =
          spec_output_path d (user r) (current_date a)
            (if 1 < length (targets m) then Some tn else None) ''mp4''
        \<and> user_folder (os_name_nt a) r = d @ ''/'' @ user r @ ''/'')
   \<and> base_output nt None = [] \<and> base_output nt (Some []) = []
   \<and> (d \<noteq> [] \<and> (endswith d ''/'' \<or> endswith d backslash) \<longrightarrow> base_output nt (Some d) = d)
   \<and> (d \<noteq> [] \<and> \<not> endswith d ''/'' \<and> \<not> endswith d backslash \<longrightarrow>
        base_output nt (Some d) = d @ (if nt then backslash else ''/''))
   \<and> (live_url a = Inr (Some u) \<and> u \<noteq> [] \<and> makedirs_exn a = None \<and> open_exn a = None \<longrightarrow>
        prefix (trace s @ [GetLiveUrl (room_id r), MakeDirs (user_folder (os_name_nt a) r),
                  LogInfo (''['' @ tn @ ''] '' @ esc @ ''[32mStarted recording'' @ esc @ ''[0m to: ''
                     @ output_file m r tn a),
                  OpenFile (output_file m r tn a)])
               (trace (fst (start_recording m r tn a s))))
   \<and> (live_url a = Inr (Some u) \<and> u \<noteq> [] \<and> makedirs_exn a = Some x \<longrightarrow>
        start_recording m r tn a s = (emit (GetLiveUrl (room_id r)) s, Raise x))"
proof (intro conjI impI)
  show "output_file m r tn a =
     base_output (os_name_nt a) (rec_output r) @ user r @ ''/TK_'' @ user r @ ''_'' @ current_date a
       @ (if 1 < length (targets m) then ''_'' @ tn else []) @ ''_flv.mp4''"
    by (simp add: output_file_def user_folder_def output_suffix_def)
  show "user_folder (os_name_nt a) r = base_output (os_name_nt a) (rec_output r) @ user r @ ''/''"
    by (simp add: user_folder_def)
  show "base_output nt None = []" and "base_output nt (Some []) = []"
    by (simp_all add: base_output_cases)
next
  assume h: "rec_output r = Some d \<and> d \<noteq> [] \<and> \<not> endswith d ''/'' \<and> \<not> endswith d backslash
        \<and> \<not> os_name_nt a"
  then have b: "base_output (os_name_nt a) (rec_output r) = d @ ''/''"
    by (simp add: base_output_cases)
  then show "output_file m r tn a =
          spec_output_path d (user r) (current_date a)
            (if 1 < length (targets m) then Some tn else None) ''mp4''"
    by (simp add: output_file_def user_folder_def output_suffix_def spec_output_path_def)
  from b show "user_folder (os_name_nt a) r = d @ ''/'' @ user r @ ''/''"
    by (simp add: user_folder_def)
next
  assume "d \<noteq> [] \<and> (endswith d ''/'' \<or> endswith d backslash)"
  then show "base_output nt (Some d) = d" by (simp add: base_output_cases)
next
  assume "d \<noteq> [] \<and> \<not> endswith d ''/'' \<and> \<not> endswith d backslash"
  then show "base_output nt (Some d) = d @ (if nt then backslash else ''/'')"
    by (simp add: base_output_cases)
next
  assume "live_url a = Inr (Some u) \<and> u \<noteq> [] \<and> makedirs_exn a = None \<and> open_exn a = None"
  then have l: "live_url a = Inr (Some u)" "u \<noteq> []" "makedirs_exn a = None" "open_exn a = None"
    by simp_all
  show "prefix (trace s @ [GetLiveUrl (room_id r), MakeDirs (user_folder (os_name_nt a) r),
                  LogInfo (''['' @ tn @ ''] '' @ esc @ ''[32mStarted recording'' @ esc @ ''[0m to: ''
                     @ output_file m r tn a),
                  OpenFile (output_file m r tn a)])
               (trace (fst (start_recording m r tn a s)))"
    by (rule start_recording_trace [OF l])
next
  assume "live_url a = Inr (Some u) \<and> u \<noteq> [] \<and> makedirs_exn a = Some x"
  then show "start_recording m r tn a s = (emit (GetLiveUrl (room_id r)) s, Raise x)"
    by (simp add: start_recording_def truthy_str_def)
qed

theorem output_path_format_witness:
  "rec_output alice = Some ''out'' \<and> ''out'' \<noteq> [] \<and> \<not> endswith ''out'' ''/''
   \<and> \<not> endswith ''out'' backslash
   \<and> \<not> os_name_nt (recording_attempt [live_iter [quiet_chunk [1, 2, 3]], ended_iter])
   \<and> output_file two_manual alice ''Stream-1-alice''
        (recording_attempt [live_iter [quiet_chunk [1, 2, 3]], ended_iter])
       = ''out/alice/TK_alice_2025.01.02_03-04-05_Stream-1-alice_flv.mp4''
   \<and> output_file one_manual alice ''Stream-1-alice''
        (recording_attempt [live_iter [quiet_chunk [1, 2, 3]], ended_iter])
       = ''out/alice/TK_alice_2025.01.02_03-04-05_flv.mp4''
   \<and> endswith ''out/'' ''/'' \<and> base_output False (Some ''out/'') = ''out/''
   \<and> base_output True (Some ''out'') = ''out'' @ backslash
   \<and> live_url (recording_attempt [live_iter [quiet_chunk [1, 2, 3]], ended_iter])
       = Inr (Some ''http://pull.example/live.flv'')
   \<and> makedirs_exn (recording_attempt [live_iter [quiet_chunk [1, 2, 3]], ended_iter]) = None
   \<and> open_exn (recording_attempt [live_iter [quiet_chunk [1, 2, 3]], ended_iter]) = None
   \<and> trace (fst (start_recording one_manual alice ''Stream-1-alice''
        (recording_attempt [live_iter [quiet_chunk [1, 2, 3]], ended_iter]) init_state))
       = [GetLiveUrl ''7001'', MakeDirs ''out/alice/'',
          LogInfo (''[Stream-1-alice] '' @ esc @ ''[32mStarted recording'' @ esc
             @ ''[0m to: out/alice/TK_alice_2025.01.02_03-04-05_flv.mp4''),
          OpenFile ''out/alice/TK_alice_2025.01.02_03-04-05_flv.mp4'',
          IsRoomAlive ''7001'', WriteFile [1, 2, 3], FlushFile,
          IsRoomAlive ''7001'',
          LogInfo ''[Stream-1-alice] User is no longer live. Stopping recording.'', FlushFile,
          CloseFile ''out/alice/TK_alice_2025.01.02_03-04-05_flv.mp4'' [1, 2, 3],
          LogInfo (''[Stream-1-alice] '' @ esc @ ''[36mRecording finished'' @ esc
             @ ''[0m: out/alice/TK_alice_2025.01.02_03-04-05_flv.mp4''),
          ConvertFlv ''out/alice/TK_alice_2025.01.02_03-04-05_flv.mp4'']"
  using output_path_format [of two_manual alice "''Stream-1-alice''"
      "recording_attempt [live_iter [quiet_chunk [1, 2, 3]], ended_iter]" "''out''" False
      "''http://pull.example/live.flv''" init_state "Exception ''x''"]
    output_path_format [of one_manual alice "''Stream-1-alice''"
      "recording_attempt [live_iter [quiet_chunk [1, 2, 3]], ended_iter]" "''out/''" False
      "''http://pull.example/live.flv''" init_state "Exception ''x''"]
    output_path_format [of one_manual alice "''Stream-1-alice''"
      "recording_attempt [live_iter [quiet_chunk [1, 2, 3]], ended_iter]" "''out''" True
      "''http://pull.example/live.flv''" init_state "Exception ''x''"]
  by (simp add: lossy_iter_def live_iter_def ended_iter_def quiet_chunk_def init_state_def alice_def
      try_body_def finally_block_def extend_buffer_def buffer_size_def duration_reached_def
      out_file_write_def out_file_flush_def start_recording_def post_process_def
      recording_attempt_def not_live_attempt_def truthy_str_def output_file_def user_folder_def
      base_output_def endswith_def backslash_def output_suffix_def one_manual_def two_manual_def
      open_file_def close_file_def emit_def Let_def esc_def spec_output_path_def)

section \<open>The orchestrator: spawning, waiting and joining\<close>

lemma thread_names_length [simp]: "length (thread_names i ts) = length ts"
  by (induction ts arbitrary: i) simp_all



















end
